theory Spec2Isabelle
  imports Complex_Main
begin

section \<open>Python primitives used by gui\_control.py\<close>

text \<open>
  \<^verbatim>\<open>int(x)\<close> on the result of a true division truncates toward zero. The operands of
  every \<^verbatim>\<open>/\<close> in the program are integers (slider values and device temperatures), and
  the interpreter divides them as doubles. The quotient is modelled as an exact rational.
  For operands of magnitude below \<open>10^5\<close> the two agree after truncation: the double lies
  far closer to the exact quotient than the nearest integer does (the fractional parts are
  multiples of 1/5 and of 1/9). They part from a magnitude of about \<open>2 * 10^15\<close> on, where
  the double has lost the fraction, and beyond the range of a double the interpreter
  raises \<^verbatim>\<open>OverflowError\<close>. What is proved of the values of the conversions is therefore
  stated for inputs inside \<open>exact_range\<close>.
\<close>

definition py_int :: "rat \<Rightarrow> int" where
  "py_int x = (if 0 \<le> x then \<lfloor>x\<rfloor> else \<lceil>x\<rceil>)"

definition exact_range :: "int \<Rightarrow> bool" where
  "exact_range x = (\<bar>x\<bar> < 100000)"

text \<open>\<^verbatim>\<open>d.get(k, default)\<close> on a dict literal, kept as an association list.\<close>

definition dict_get :: "('k \<times> 'v) list \<Rightarrow> 'k \<Rightarrow> 'v \<Rightarrow> 'v" where
  "dict_get d k dflt = (case map_of d k of Some v \<Rightarrow> v | None \<Rightarrow> dflt)"

text \<open>\<^verbatim>\<open>f"{n}"\<close> for an integer: the decimal numeral, with a minus sign when negative.\<close>

definition digits :: string where
  "digits = ''0123456789''"

function str_nat :: "nat \<Rightarrow> string" where
  "str_nat n = (if n < 10 then [digits ! n] else str_nat (n div 10) @ [digits ! (n mod 10)])"
  by pat_completeness auto
termination
  by (relation "measure id") auto

definition str_int :: "int \<Rightarrow> string" where
  "str_int i = (if i < 0 then CHR ''-'' # str_nat (nat (- i)) else str_nat (nat i))"

text \<open>The degree sign of the labels (its two UTF-8 bytes) and the line break of the dialogs.\<close>

definition degree :: string where
  "degree = [CHR 0xC2, CHR 0xB0]"

definition newline :: string where
  "newline = [CHR 0x0A]"

text \<open>A call into the device library either raises (with the text of the exception) or returns.\<close>

datatype 'a outcome = Raises string | Returns 'a


section \<open>Code tables and unit conversion\<close>

text \<open>
  The dict literals of \<^verbatim>\<open>update_status_display\<close> (\<^verbatim>\<open>mode_map\<close>, \<^verbatim>\<open>mode_reverse\<close>,
  \<^verbatim>\<open>fan_map\<close>, \<^verbatim>\<open>fan_reverse\<close>) and of \<^verbatim>\<open>set_mode\<close> and \<^verbatim>\<open>set_fan_speed\<close> (their own
  \<^verbatim>\<open>mode_map\<close> and \<^verbatim>\<open>fan_map\<close>, from names to codes). The source reuses the names
  \<^verbatim>\<open>mode_map\<close> and \<^verbatim>\<open>fan_map\<close> in both directions; here the tables of the display carry the
  prefix \<open>display\<close> and those of the commands the prefix \<open>set\<close>.
\<close>

definition display_mode_map :: "(int \<times> string) list" where
  "display_mode_map = [(1, ''Auto''), (2, ''Cool''), (3, ''Dry''), (4, ''Heat''), (5, ''Fan'')]"

definition mode_reverse :: "(int \<times> string) list" where
  "mode_reverse = [(1, ''auto''), (2, ''cool''), (3, ''dry''), (4, ''heat''), (5, ''fan'')]"

definition display_fan_map :: "(int \<times> string) list" where
  "display_fan_map =
     [(20, ''Low''), (40, ''Med-Low''), (60, ''Medium''), (80, ''Med-High''), (102, ''Auto'')]"

definition fan_reverse :: "(int \<times> string) list" where
  "fan_reverse =
     [(20, ''Low''), (40, ''Med-Low''), (60, ''Medium''), (80, ''Med-High''), (102, ''Auto''),
      (100, ''High'')]"

definition set_mode_map :: "(string \<times> int) list" where
  "set_mode_map = [(''auto'', 1), (''cool'', 2), (''dry'', 3), (''heat'', 4), (''fan'', 5)]"

definition set_fan_map :: "(string \<times> int) list" where
  "set_fan_map =
     [(''Auto'', 102), (''Low'', 20), (''Med-Low'', 40), (''Medium'', 60), (''Med-High'', 80),
      (''High'', 100)]"

text \<open>\<^verbatim>\<open>mode_text = mode_map.get(state.mode, f"Unknown ({state.mode})")\<close>\<close>

definition mode_text :: "int \<Rightarrow> string" where
  "mode_text m = dict_get display_mode_map m (''Unknown ('' @ str_int m @ '')'')"

text \<open>\<^verbatim>\<open>fan_text = fan_map.get(state.fan_speed, f"{state.fan_speed}")\<close>\<close>

definition fan_text :: "int \<Rightarrow> string" where
  "fan_text f = dict_get display_fan_map f (str_int f)"

text \<open>\<^verbatim>\<open>mode_num = mode_map.get(mode, 1)\<close> in \<^verbatim>\<open>set_mode\<close>\<close>

definition mode_num :: "string \<Rightarrow> int" where
  "mode_num name = dict_get set_mode_map name 1"

text \<open>\<^verbatim>\<open>fan_speed = fan_map.get(fan, 102)\<close> in \<^verbatim>\<open>set_fan_speed\<close>\<close>

definition fan_speed_num :: "string \<Rightarrow> int" where
  "fan_speed_num name = dict_get set_fan_map name 102"

text \<open>
  The two conversions are written inline in the source:
  \<^verbatim>\<open>int(t * 9 / 5 + 32)\<close> (in \<^verbatim>\<open>update_status_display\<close> and \<^verbatim>\<open>update_temp_scale\<close>) and
  \<^verbatim>\<open>int((t - 32) * 5 / 9)\<close> (in \<^verbatim>\<open>set_temperature\<close> and \<^verbatim>\<open>update_temp_scale\<close>).
  They are the source's on inputs inside \<open>exact_range\<close>, as said of \<open>py_int\<close>.
\<close>

definition celsius_to_fahrenheit :: "int \<Rightarrow> int" where
  "celsius_to_fahrenheit c = py_int (of_int c * 9 / 5 + 32)"

definition fahrenheit_to_celsius :: "int \<Rightarrow> int" where
  "fahrenheit_to_celsius f = py_int (of_int (f - 32) * 5 / 9)"


subsection \<open>The tables and conversions as the specification words them\<close>

text \<open>
  The specification asks for rounding to the nearest integer, ties upward; for a lookup
  of a name that fails with \<open>UnknownSymbol\<close> outside the vocabulary; and for the text
  \<^verbatim>\<open>Unknown(N)\<close> for an unknown mode code. These definitions follow its words, to be
  compared with the ones taken from the source.
\<close>

definition round_half_up :: "rat \<Rightarrow> int" where
  "round_half_up x = \<lfloor>x + 1 / 2\<rfloor>"

definition spec_celsiusToFahrenheit :: "int \<Rightarrow> int" where
  "spec_celsiusToFahrenheit c = round_half_up (of_int c * 9 / 5 + 32)"

definition spec_fahrenheitToCelsius :: "int \<Rightarrow> int" where
  "spec_fahrenheitToCelsius f = round_half_up (of_int (f - 32) * 5 / 9)"

datatype error = UnknownSymbol

definition spec_symbolToMode :: "string \<Rightarrow> error + int" where
  "spec_symbolToMode name =
     (case map_of set_mode_map name of Some c \<Rightarrow> Inr c | None \<Rightarrow> Inl UnknownSymbol)"

definition spec_symbolToFan :: "string \<Rightarrow> error + int" where
  "spec_symbolToFan name =
     (case map_of set_fan_map name of Some c \<Rightarrow> Inr c | None \<Rightarrow> Inl UnknownSymbol)"


text \<open>Division of integers that truncates toward zero.\<close>

definition trunc_div :: "int \<Rightarrow> int \<Rightarrow> int" where
  "trunc_div a b = (if 0 \<le> a then a div b else - ((- a) div b))"


section \<open>The device state and the window\<close>

text \<open>The attributes of the library's state object that the program reads and writes.\<close>

record device_state =
  running :: bool
  mode :: int
  target_temperature :: int
  indoor_temperature :: int
  fan_speed :: int
  vertical_swing :: bool
  horizontal_swing :: bool

text \<open>
  Objects of the device library live in a store and are held by reference:
  \<^verbatim>\<open>self.device\<close> is the connection object, identified with the address of the state object
  its attribute \<^verbatim>\<open>state\<close> yields, and \<^verbatim>\<open>self.current_state\<close> holds what
  \<^verbatim>\<open>device.state\<close> returned at the last refresh.
\<close>

type_synonym ref = nat

text \<open>
  The attributes of \<^verbatim>\<open>SenvilleGUI\<close> and the contents of its widgets. \<open>app_running\<close> is
  \<^verbatim>\<open>self.running\<close> (the name \<open>running\<close> is the device's). \<open>status_labels\<close> gives the text
  of \<^verbatim>\<open>self.status_labels[key]\<close>, \<open>temp_scale\<close> the configured \<^verbatim>\<open>from_\<close> and \<^verbatim>\<open>to\<close> of
  the slider, to which \<^verbatim>\<open>temp_var\<close> is linked (\<^verbatim>\<open>variable=self.temp_var\<close>). The last
  four fields are the world around the window: the store of device objects, the error
  dialogs shown by \<^verbatim>\<open>messagebox.showerror\<close> (title and message), the contents of the state
  object at each call of \<^verbatim>\<open>device.apply()\<close>, and the number of refreshes scheduled by
  \<^verbatim>\<open>root.after(1000, self.refresh_status)\<close>.
\<close>

record gui =
  device :: "ref option"
  current_state :: "ref option"
  auto_refresh :: bool
  app_running :: bool
  temp_slider_active :: bool
  status_labels :: "string \<Rightarrow> string"
  power_foreground :: string
  last_updated_label :: string
  status_bar :: string
  mode_var :: string
  temp_var :: int
  temp_scale :: "int \<times> int"
  temp_label :: string
  temp_unit :: string
  fan_var :: string
  vswing_var :: bool
  hswing_var :: bool
  store :: "ref \<Rightarrow> device_state"
  next_ref :: ref
  dialogs :: "(string \<times> string) list"
  applied :: "device_state list"
  scheduled_refreshes :: nat

text \<open>The window as \<^verbatim>\<open>__init__\<close> and \<^verbatim>\<open>create_widgets\<close> leave it, before the first refresh.\<close>

definition blank_state :: device_state where
  "blank_state = \<lparr>running = False, mode = 0, target_temperature = 0, indoor_temperature = 0,
     fan_speed = 0, vertical_swing = False, horizontal_swing = False\<rparr>"

definition init_gui :: gui where
  "init_gui = \<lparr>device = None, current_state = None, auto_refresh = True, app_running = True,
     temp_slider_active = False, status_labels = (\<lambda>key. ''--''), power_foreground = '''',
     last_updated_label = ''--'', status_bar = ''Ready'', mode_var = ''auto'', temp_var = 72,
     temp_scale = (60, 87), temp_label = ''72'' @ degree @ ''F'', temp_unit = ''F'',
     fan_var = ''Auto'', vswing_var = False, hswing_var = False,
     store = (\<lambda>r. blank_state), next_ref = 0, dialogs = [], applied = [],
     scheduled_refreshes = 0\<rparr>"

text \<open>What the operator sees of the device: the labels and the controls.\<close>

definition display_model ::
  "gui \<Rightarrow> (string \<Rightarrow> string) \<times> string \<times> string \<times> string \<times> int \<times> string \<times> string \<times> bool \<times> bool"
where
  "display_model g = (status_labels g, power_foreground g, last_updated_label g, mode_var g,
     temp_var g, temp_label g, fan_var g, vswing_var g, hswing_var g)"


section \<open>The temperature slider and the unit toggle\<close>

definition update_status_bar :: "string \<Rightarrow> gui \<Rightarrow> gui" where
  "update_status_bar message g = g\<lparr>status_bar := message\<rparr>"

definition on_temp_change :: "gui \<Rightarrow> gui" where
  "on_temp_change g = g\<lparr>temp_label := str_int (temp_var g) @ degree @ temp_unit g\<rparr>"

text \<open>
  The slider is a Tk \<^verbatim>\<open>Scale\<close> and keeps the variable linked to it inside its range: a
  value written to the variable below \<^verbatim>\<open>from_\<close> is stored as \<^verbatim>\<open>from_\<close>, one above \<^verbatim>\<open>to\<close> as
  \<^verbatim>\<open>to\<close>, and a change of the range moves the variable into the new range.
  \<open>temp_var_set v\<close> is \<^verbatim>\<open>self.temp_var.set(v)\<close> and \<open>temp_scale_configure\<close> is
  \<^verbatim>\<open>self.temp_scale.configure(from_=..., to=...)\<close>.
\<close>

definition scale_clamp :: "int \<times> int \<Rightarrow> int \<Rightarrow> int" where
  "scale_clamp bounds v =
     (if v < fst bounds then fst bounds else if snd bounds < v then snd bounds else v)"

definition temp_var_set :: "int \<Rightarrow> gui \<Rightarrow> gui" where
  "temp_var_set v g = g\<lparr>temp_var := scale_clamp (temp_scale g) v\<rparr>"

definition temp_scale_configure :: "int \<times> int \<Rightarrow> gui \<Rightarrow> gui" where
  "temp_scale_configure bounds g =
     g\<lparr>temp_scale := bounds, temp_var := scale_clamp bounds (temp_var g)\<rparr>"

definition update_temp_scale :: "gui \<Rightarrow> gui" where
  "update_temp_scale g =
     (let current_temp = temp_var g in
      if temp_unit g = ''C'' then
        (let g = temp_scale_configure (16, 31) g;
             current_temp = (if current_temp > 31 then fahrenheit_to_celsius current_temp
                             else current_temp);
             g = temp_var_set current_temp g
         in on_temp_change g)
      else
        (let g = temp_scale_configure (60, 87) g;
             current_temp = (if current_temp < 60 then celsius_to_fahrenheit current_temp
                             else current_temp);
             g = temp_var_set current_temp g
         in on_temp_change g))"

text \<open>
  A click on one of the two radio buttons stores the button's value in \<^verbatim>\<open>temp_unit\<close> and
  runs its command, \<^verbatim>\<open>update_temp_scale\<close>.
\<close>

definition select_unit :: "string \<Rightarrow> gui \<Rightarrow> gui" where
  "select_unit u g = update_temp_scale (g\<lparr>temp_unit := u\<rparr>)"



section \<open>Reconciliation: update\_status\_display\<close>

text \<open>
  \<^verbatim>\<open>update_status_display(state)\<close>, block by block as the source comments them (power,
  mode, temperatures, fan speed, swing, last updated), each block statement by statement.
  \<open>config_label key text\<close> is \<^verbatim>\<open>self.status_labels[key].config(text=text)\<close> and \<open>now\<close> is
  the text of \<^verbatim>\<open>datetime.now().strftime("%H:%M:%S")\<close>. The body stands in a \<^verbatim>\<open>try\<close> whose
  handler writes the exception to the status bar; on a state whose attributes are the
  booleans and integers of \<open>device_state\<close> no statement of the body raises.
\<close>

definition config_label :: "string \<Rightarrow> string \<Rightarrow> gui \<Rightarrow> gui" where
  "config_label key text g = g\<lparr>status_labels := (status_labels g)(key := text)\<rparr>"

definition display_power :: "device_state \<Rightarrow> gui \<Rightarrow> gui" where
  "display_power state g =
     (let power_text = (if running state then ''ON'' else ''OFF'');
          g = config_label ''power'' power_text g
      in g\<lparr>power_foreground := (if running state then ''green'' else ''red'')\<rparr>)"

definition display_mode :: "device_state \<Rightarrow> gui \<Rightarrow> gui" where
  "display_mode state g =
     (let g = config_label ''mode'' (mode_text (mode state)) g
      in case map_of mode_reverse (mode state) of
           Some name \<Rightarrow> g\<lparr>mode_var := name\<rparr>
         | None \<Rightarrow> g)"

definition display_temperatures :: "device_state \<Rightarrow> gui \<Rightarrow> gui" where
  "display_temperatures state g =
     (let (target_temp, indoor_temp, unit) =
            (if temp_unit g = ''F''
             then (celsius_to_fahrenheit (target_temperature state),
                   celsius_to_fahrenheit (indoor_temperature state), degree @ ''F'')
             else (target_temperature state, indoor_temperature state, degree @ ''C''));
          g = config_label ''target_temp'' (str_int target_temp @ unit) g;
          g = config_label ''indoor_temp'' (str_int indoor_temp @ unit) g
      in if \<not> temp_slider_active g
         then (let g = temp_var_set target_temp g
               in g\<lparr>temp_label := str_int target_temp @ degree @ temp_unit g\<rparr>)
         else g)"

definition display_fan_speed :: "device_state \<Rightarrow> gui \<Rightarrow> gui" where
  "display_fan_speed state g =
     (let g = config_label ''fan_speed'' (fan_text (fan_speed state)) g
      in case map_of fan_reverse (fan_speed state) of
           Some name \<Rightarrow> g\<lparr>fan_var := name\<rparr>
         | None \<Rightarrow> g)"

definition display_swing :: "device_state \<Rightarrow> gui \<Rightarrow> gui" where
  "display_swing state g =
     (let g = config_label ''vswing'' (if vertical_swing state then ''ON'' else ''OFF'') g;
          g = config_label ''hswing'' (if horizontal_swing state then ''ON'' else ''OFF'') g
      in g\<lparr>vswing_var := vertical_swing state, hswing_var := horizontal_swing state\<rparr>)"

definition update_status_display :: "string \<Rightarrow> device_state \<Rightarrow> gui \<Rightarrow> gui" where
  "update_status_display now state g =
     (let g = display_power state g;
          g = display_mode state g;
          g = display_temperatures state g;
          g = display_fan_speed state g;
          g = display_swing state g;
          g = g\<lparr>last_updated_label := now\<rparr>
      in update_status_bar ''Status updated'' g)"

text \<open>
  A temperature of the device as the window shows it in a unit, and the unit's sign on the
  status labels.
\<close>

definition shown_temperature :: "string \<Rightarrow> int \<Rightarrow> int" where
  "shown_temperature unit c = (if unit = ''F'' then celsius_to_fahrenheit c else c)"

definition unit_sign :: "string \<Rightarrow> string" where
  "unit_sign unit = (if unit = ''F'' then degree @ ''F'' else degree @ ''C'')"


section \<open>The gateway: get\_device, refresh\_status and the polling loop\<close>

text \<open>
  \<^verbatim>\<open>get_device()\<close>. \<open>conn\<close> says what \<^verbatim>\<open>appliance_state(address, token, key)\<close> does if it
  is called: it raises, or it returns a new connection whose state object holds the given
  contents. A connection, once made, is kept in \<^verbatim>\<open>self.device\<close> and returned without a
  call. An exception is caught here: a dialog is shown and the result is \<^verbatim>\<open>None\<close>.
\<close>

definition get_device :: "device_state outcome \<Rightarrow> gui \<Rightarrow> ref option \<times> gui" where
  "get_device conn g =
     (case device g of
        Some r \<Rightarrow> (Some r, g)
      | None \<Rightarrow>
          (case conn of
             Returns s \<Rightarrow>
               (Some (next_ref g),
                g\<lparr>device := Some (next_ref g), store := (store g)(next_ref g := s),
                  next_ref := Suc (next_ref g)\<rparr>)
           | Raises e \<Rightarrow>
               (None,
                g\<lparr>dialogs := dialogs g @
                  [(''Connection Error'', ''Failed to connect to device:'' @ newline @ e)]\<rparr>)))"

text \<open>
  \<^verbatim>\<open>refresh_status()\<close>, with the body of its thread run to its end and the calls it hands
  to the main loop by \<^verbatim>\<open>root.after(0, ...)\<close> run at once. \<open>st\<close> says what the read of
  \<^verbatim>\<open>device.state\<close> does: it raises, or it yields the state object, which holds the given
  contents by then (the library fills its object in place).
\<close>

definition refresh_status ::
  "string \<Rightarrow> device_state outcome \<Rightarrow> device_state outcome \<Rightarrow> gui \<Rightarrow> gui" where
  "refresh_status now conn st g =
     (let g = update_status_bar ''Refreshing status...'' g in
      case get_device conn g of
        (None, g) \<Rightarrow> g
      | (Some r, g) \<Rightarrow>
          (case st of
             Raises e \<Rightarrow> update_status_bar (''Error: '' @ e) g
           | Returns s \<Rightarrow>
               update_status_display now s
                 (g\<lparr>store := (store g)(r := s), current_state := Some r\<rparr>)))"

text \<open>
  \<^verbatim>\<open>auto_refresh_loop\<close> of \<^verbatim>\<open>start_auto_refresh\<close>: one element of the list for each
  pass of the \<^verbatim>\<open>while self.running\<close> loop, giving the clock and the behaviour of the library
  in that pass. The loop of the source ends only when the window closes; the list bounds
  the passes that are observed.
\<close>

type_synonym cycle = "string \<times> device_state outcome \<times> device_state outcome"

fun auto_refresh_loop :: "cycle list \<Rightarrow> gui \<Rightarrow> gui" where
  "auto_refresh_loop [] g = g"
| "auto_refresh_loop ((now, conn, st) # cycles) g =
     (if app_running g
      then auto_refresh_loop cycles
             (if auto_refresh g then refresh_status now conn st g else g)
      else g)"

text \<open>The refreshes the loop has started: one for each pass made with auto-refresh on.\<close>

fun refreshes_started :: "cycle list \<Rightarrow> gui \<Rightarrow> nat" where
  "refreshes_started [] g = 0"
| "refreshes_started ((now, conn, st) # cycles) g =
     (if app_running g
      then (if auto_refresh g
            then Suc (refreshes_started cycles (refresh_status now conn st g))
            else refreshes_started cycles g)
      else 0)"


section \<open>Commands\<close>

text \<open>
  Each of \<^verbatim>\<open>set_power\<close>, \<^verbatim>\<open>set_mode\<close>, \<^verbatim>\<open>set_temperature\<close>, \<^verbatim>\<open>set_fan_speed\<close>,
  \<^verbatim>\<open>set_vswing\<close> and \<^verbatim>\<open>set_hswing\<close> writes the status bar (the swing commands do not),
  then starts a thread whose body has one shape: get the device, assign one attribute of
  \<^verbatim>\<open>device.state\<close>, call \<^verbatim>\<open>device.apply()\<close>, schedule a refresh and report, all inside
  a \<^verbatim>\<open>try\<close> whose handler shows an error dialog. A \<open>command\<close> holds the variables the
  thread's closure captures.
\<close>

datatype command =
    SetPower bool
  | SetMode string int
  | SetTemperature int string int
  | SetFanSpeed string int
  | SetVSwing bool
  | SetHSwing bool

text \<open>The assignment \<^verbatim>\<open>device.state.<attribute> = <value>\<close> of each thread.\<close>

fun assign :: "command \<Rightarrow> device_state \<Rightarrow> device_state" where
  "assign (SetPower power_on) s = s\<lparr>running := power_on\<rparr>"
| "assign (SetMode name code) s = s\<lparr>mode := code\<rparr>"
| "assign (SetTemperature temp unit temp_c) s = s\<lparr>target_temperature := temp_c\<rparr>"
| "assign (SetFanSpeed name code) s = s\<lparr>fan_speed := code\<rparr>"
| "assign (SetVSwing enabled) s = s\<lparr>vertical_swing := enabled\<rparr>"
| "assign (SetHSwing enabled) s = s\<lparr>horizontal_swing := enabled\<rparr>"

text \<open>The attribute a command assigns: the control field it belongs to.\<close>

fun field_of :: "command \<Rightarrow> string" where
  "field_of (SetPower power_on) = ''running''"
| "field_of (SetMode name code) = ''mode''"
| "field_of (SetTemperature temp unit temp_c) = ''target_temperature''"
| "field_of (SetFanSpeed name code) = ''fan_speed''"
| "field_of (SetVSwing enabled) = ''vertical_swing''"
| "field_of (SetHSwing enabled) = ''horizontal_swing''"

text \<open>The status bar text written before the thread starts.\<close>

fun announce :: "command \<Rightarrow> gui \<Rightarrow> gui" where
  "announce (SetPower power_on) g =
     update_status_bar (''Turning '' @ (if power_on then ''ON'' else ''OFF'') @ ''...'') g"
| "announce (SetMode name code) g =
     update_status_bar (''Setting mode to '' @ name @ ''...'') g"
| "announce (SetTemperature temp unit temp_c) g =
     update_status_bar (''Setting temperature to '' @ str_int temp @ degree @ unit @ ''...'') g"
| "announce (SetFanSpeed name code) g =
     update_status_bar (''Setting fan speed to '' @ name @ ''...'') g"
| "announce (SetVSwing enabled) g = g"
| "announce (SetHSwing enabled) g = g"

text \<open>The status bar text after a successful \<^verbatim>\<open>apply()\<close>, and the start of the error dialog.\<close>

fun done_message :: "command \<Rightarrow> string" where
  "done_message (SetPower power_on) = ''Power '' @ (if power_on then ''ON'' else ''OFF'')"
| "done_message (SetMode name code) = ''Mode set to '' @ name"
| "done_message (SetTemperature temp unit temp_c) =
     ''Temperature set to '' @ str_int temp @ degree @ unit"
| "done_message (SetFanSpeed name code) = ''Fan speed set to '' @ name"
| "done_message (SetVSwing enabled) =
     ''Vertical swing '' @ (if enabled then ''enabled'' else ''disabled'')"
| "done_message (SetHSwing enabled) =
     ''Horizontal swing '' @ (if enabled then ''enabled'' else ''disabled'')"

fun failed_message :: "command \<Rightarrow> string" where
  "failed_message (SetPower power_on) = ''Failed to set power:'' @ newline"
| "failed_message (SetMode name code) = ''Failed to set mode:'' @ newline"
| "failed_message (SetTemperature temp unit temp_c) = ''Failed to set temperature:'' @ newline"
| "failed_message (SetFanSpeed name code) = ''Failed to set fan speed:'' @ newline"
| "failed_message (SetVSwing enabled) = ''Failed to set vertical swing:'' @ newline"
| "failed_message (SetHSwing enabled) = ''Failed to set horizontal swing:'' @ newline"

text \<open>
  The body of a command's thread, run to its end. \<open>conn\<close> is as in \<open>get_device\<close>. \<open>asg\<close>
  says what the statement \<^verbatim>\<open>device.state.<attribute> = <value>\<close> does: it raises (the read
  of \<^verbatim>\<open>device.state\<close> fails, or the library's setter refuses the value) and then nothing
  is written, or it returns with the attribute written. \<open>ap\<close> says whether
  \<^verbatim>\<open>device.apply()\<close> raises or returns. Every exception ends the thread in the handler,
  which shows the dialog. \<open>applied\<close> records the contents of the state object at the call
  of \<^verbatim>\<open>apply()\<close>: that object is what the library sends.
\<close>

definition run_thread ::
  "command \<Rightarrow> device_state outcome \<Rightarrow> unit outcome \<Rightarrow> unit outcome \<Rightarrow> gui \<Rightarrow> gui" where
  "run_thread c conn asg ap g =
     (case get_device conn g of
        (None, g) \<Rightarrow> g
      | (Some r, g) \<Rightarrow>
          (case asg of
             Raises e \<Rightarrow> g\<lparr>dialogs := dialogs g @ [(''Error'', failed_message c @ e)]\<rparr>
           | Returns u \<Rightarrow>
               (let g = g\<lparr>store := (store g)(r := assign c (store g r))\<rparr>;
                    g = g\<lparr>applied := applied g @ [store g r]\<rparr>
                in case ap of
                     Raises e \<Rightarrow>
                       g\<lparr>dialogs := dialogs g @ [(''Error'', failed_message c @ e)]\<rparr>
                   | Returns u \<Rightarrow>
                       update_status_bar (done_message c)
                         (g\<lparr>scheduled_refreshes := Suc (scheduled_refreshes g)\<rparr>))))"

definition issue ::
  "command \<Rightarrow> device_state outcome \<Rightarrow> unit outcome \<Rightarrow> unit outcome \<Rightarrow> gui \<Rightarrow> gui" where
  "issue c conn asg ap g = run_thread c conn asg ap (announce c g)"

definition set_power ::
  "bool \<Rightarrow> device_state outcome \<Rightarrow> unit outcome \<Rightarrow> unit outcome \<Rightarrow> gui \<Rightarrow> gui" where
  "set_power power_on conn asg ap g = issue (SetPower power_on) conn asg ap g"

definition set_mode ::
  "device_state outcome \<Rightarrow> unit outcome \<Rightarrow> unit outcome \<Rightarrow> gui \<Rightarrow> gui" where
  "set_mode conn asg ap g =
     (let name = mode_var g in issue (SetMode name (mode_num name)) conn asg ap g)"

definition set_temperature ::
  "device_state outcome \<Rightarrow> unit outcome \<Rightarrow> unit outcome \<Rightarrow> gui \<Rightarrow> gui" where
  "set_temperature conn asg ap g =
     (let temp = temp_var g;
          unit = temp_unit g;
          temp_c = (if unit = ''C'' then temp else fahrenheit_to_celsius temp)
      in issue (SetTemperature temp unit temp_c) conn asg ap g)"

definition set_fan_speed ::
  "device_state outcome \<Rightarrow> unit outcome \<Rightarrow> unit outcome \<Rightarrow> gui \<Rightarrow> gui" where
  "set_fan_speed conn asg ap g =
     (let name = fan_var g in issue (SetFanSpeed name (fan_speed_num name)) conn asg ap g)"

definition set_vswing ::
  "device_state outcome \<Rightarrow> unit outcome \<Rightarrow> unit outcome \<Rightarrow> gui \<Rightarrow> gui" where
  "set_vswing conn asg ap g = issue (SetVSwing (vswing_var g)) conn asg ap g"

definition set_hswing ::
  "device_state outcome \<Rightarrow> unit outcome \<Rightarrow> unit outcome \<Rightarrow> gui \<Rightarrow> gui" where
  "set_hswing conn asg ap g = issue (SetHSwing (hswing_var g)) conn asg ap g"

definition on_temp_release ::
  "device_state outcome \<Rightarrow> unit outcome \<Rightarrow> unit outcome \<Rightarrow> gui \<Rightarrow> gui" where
  "on_temp_release conn asg ap g = set_temperature conn asg ap (g\<lparr>temp_slider_active := False\<rparr>)"


section \<open>Command threads under a scheduler\<close>

text \<open>
  \<^verbatim>\<open>threading.Thread(target=..., daemon=True).start()\<close> starts the body of a command as a
  thread of its own; the source takes no lock and keeps no queue. A thread is at one of
  these points: started; past \<^verbatim>\<open>get_device()\<close>, holding the connection; past the
  assignment; inside \<^verbatim>\<open>device.apply()\<close>, its push sent and not yet answered; finished
  after \<^verbatim>\<open>apply()\<close>; ended without a device, \<^verbatim>\<open>get_device()\<close> having returned
  \<^verbatim>\<open>None\<close>; or ended in the handler because the assignment raised, before any call of
  \<^verbatim>\<open>apply()\<close>.
\<close>

datatype pc =
  Started | Connected ref | Assigned ref | Applying ref | Finished | NoDevice | Refused

datatype thread = Thread command "device_state outcome" "unit outcome" "unit outcome" pc

fun thread_step :: "thread \<Rightarrow> gui \<Rightarrow> thread \<times> gui" where
  "thread_step (Thread c conn asg ap Started) g =
     (case get_device conn g of
        (None, g) \<Rightarrow> (Thread c conn asg ap NoDevice, g)
      | (Some r, g) \<Rightarrow> (Thread c conn asg ap (Connected r), g))"
| "thread_step (Thread c conn asg ap (Connected r)) g =
     (case asg of
        Raises e \<Rightarrow>
          (Thread c conn asg ap Refused,
           g\<lparr>dialogs := dialogs g @ [(''Error'', failed_message c @ e)]\<rparr>)
      | Returns u \<Rightarrow>
          (Thread c conn asg ap (Assigned r),
           g\<lparr>store := (store g)(r := assign c (store g r))\<rparr>))"
| "thread_step (Thread c conn asg ap (Assigned r)) g =
     (Thread c conn asg ap (Applying r), g\<lparr>applied := applied g @ [store g r]\<rparr>)"
| "thread_step (Thread c conn asg ap (Applying r)) g =
     (Thread c conn asg ap Finished,
      (case ap of
         Raises e \<Rightarrow> g\<lparr>dialogs := dialogs g @ [(''Error'', failed_message c @ e)]\<rparr>
       | Returns u \<Rightarrow>
           update_status_bar (done_message c)
             (g\<lparr>scheduled_refreshes := Suc (scheduled_refreshes g)\<rparr>)))"
| "thread_step (Thread c conn asg ap Finished) g = (Thread c conn asg ap Finished, g)"
| "thread_step (Thread c conn asg ap NoDevice) g = (Thread c conn asg ap NoDevice, g)"
| "thread_step (Thread c conn asg ap Refused) g = (Thread c conn asg ap Refused, g)"

text \<open>
  An event is a command issued from the window (its thread joins the pool) or the next step
  of the thread at a position of the pool, as the scheduler chooses.
\<close>

datatype event = Spawn command "device_state outcome" "unit outcome" "unit outcome" | Step nat

fun exec_event :: "thread list \<times> gui \<Rightarrow> event \<Rightarrow> thread list \<times> gui" where
  "exec_event (ts, g) (Spawn c conn asg ap) =
     (ts @ [Thread c conn asg ap Started], announce c g)"
| "exec_event (ts, g) (Step i) =
     (if i < length ts
      then (case thread_step (ts ! i) g of (t, g) \<Rightarrow> (ts[i := t], g))
      else (ts, g))"

definition exec :: "event list \<Rightarrow> thread list \<times> gui \<Rightarrow> thread list \<times> gui" where
  "exec evs w = foldl exec_event w evs"

fun thread_command :: "thread \<Rightarrow> command" where
  "thread_command (Thread c conn asg ap p) = c"

fun thread_pc :: "thread \<Rightarrow> pc" where
  "thread_pc (Thread c conn asg ap p) = p"

text \<open>Whether the library accepts the assignment of a thread, or of the thread of an event.\<close>

fun accepts :: "unit outcome \<Rightarrow> bool" where
  "accepts (Returns u) = True"
| "accepts (Raises e) = False"

fun thread_accepted :: "thread \<Rightarrow> bool" where
  "thread_accepted (Thread c conn asg ap p) = accepts asg"

fun event_accepted :: "event \<Rightarrow> bool" where
  "event_accepted (Spawn c conn asg ap) = accepts asg"
| "event_accepted (Step i) = True"

fun in_apply :: "pc \<Rightarrow> bool" where
  "in_apply (Applying r) = True"
| "in_apply p = False"

text \<open>A thread has called \<^verbatim>\<open>apply()\<close> when it is inside the call or has left it.\<close>

fun called_apply :: "pc \<Rightarrow> bool" where
  "called_apply (Applying r) = True"
| "called_apply Finished = True"
| "called_apply p = False"

text \<open>A thread has ended when it has no step left.\<close>

fun ended :: "pc \<Rightarrow> bool" where
  "ended Finished = True"
| "ended NoDevice = True"
| "ended Refused = True"
| "ended p = False"

text \<open>
  A thread is on course when its assignment will be accepted and it has not ended without
  a device or in the handler.
\<close>

definition on_course :: "thread \<Rightarrow> bool" where
  "on_course t =
     (thread_accepted t \<and> thread_pc t \<noteq> NoDevice \<and> thread_pc t \<noteq> Refused)"

text \<open>The pushes in flight for a control field: the threads of that field inside \<^verbatim>\<open>apply()\<close>.\<close>

definition pushes_in_flight :: "string \<Rightarrow> thread list \<Rightarrow> nat" where
  "pushes_in_flight field ts =
     length (filter (\<lambda>t. in_apply (thread_pc t) \<and> field_of (thread_command t) = field) ts)"


text \<open>The threads of a pool that have called \<^verbatim>\<open>apply()\<close>, and the commands among the events.\<close>

definition pushes_called :: "thread list \<Rightarrow> nat" where
  "pushes_called ts = length (filter (\<lambda>t. called_apply (thread_pc t)) ts)"

fun is_spawn :: "event \<Rightarrow> bool" where
  "is_spawn (Spawn c conn asg ap) = True"
| "is_spawn (Step i) = False"


section \<open>A scenario\<close>

text \<open>
  The device of the specification's scenario: off, cooling to 24 degrees Celsius, fan at
  60. \<open>connected_gui\<close> is the window after its first refresh against that device.
\<close>

definition scenario_state :: device_state where
  "scenario_state = \<lparr>running = False, mode = 2, target_temperature = 24,
     indoor_temperature = 22, fan_speed = 60, vertical_swing = False,
     horizontal_swing = False\<rparr>"

definition connected_gui :: gui where
  "connected_gui =
     refresh_status ''12:00:00'' (Returns scenario_state) (Returns scenario_state) init_gui"


text \<open>The operator presses ON and at once OFF: two commands for the field \<^verbatim>\<open>running\<close>.\<close>

definition two_power_commands :: "event list" where
  "two_power_commands =
     [Spawn (SetPower True) (Raises []) (Returns ()) (Returns ()),
      Spawn (SetPower False) (Raises []) (Returns ()) (Returns ())]"


section \<open>Reconciliation as one update of the window\<close>

text \<open>
  Each block of \<^verbatim>\<open>update_status_display\<close> writes a fixed set of widgets with values that
  depend on the fetched state and, for the temperature block, on the unit and on
  \<^verbatim>\<open>temp_slider_active\<close>. The whole function is therefore one update of the window.
  The slider variable takes the shown target temperature as the slider's range admits it.
\<close>

lemma display_power_eq:
  "display_power state g = g\<lparr>status_labels := (status_labels g)(''power'' := (if running state then ''ON'' else ''OFF'')),
      power_foreground := (if running state then ''green'' else ''red'')\<rparr>"
  by (simp add: display_power_def config_label_def)

lemma display_mode_eq:
  "display_mode state g = g\<lparr>status_labels := (status_labels g)(''mode'' := mode_text (mode state)),
      mode_var := (case map_of mode_reverse (mode state) of Some name \<Rightarrow> name | None \<Rightarrow> mode_var g)\<rparr>"
  by (simp add: display_mode_def config_label_def split: option.split)

lemma display_temperatures_eq:
  "display_temperatures state g =
     g\<lparr>status_labels := (status_labels g)
          (''target_temp'' := str_int (shown_temperature (temp_unit g) (target_temperature state)) @ unit_sign (temp_unit g),
           ''indoor_temp'' := str_int (shown_temperature (temp_unit g) (indoor_temperature state)) @ unit_sign (temp_unit g)),
       temp_var := (if temp_slider_active g then temp_var g
                    else scale_clamp (temp_scale g)
                           (shown_temperature (temp_unit g) (target_temperature state))),
       temp_label := (if temp_slider_active g then temp_label g
                      else str_int (shown_temperature (temp_unit g) (target_temperature state)) @ degree @ temp_unit g)\<rparr>"
  by (simp add: display_temperatures_def config_label_def temp_var_set_def shown_temperature_def
      unit_sign_def)

lemma display_fan_speed_eq:
  "display_fan_speed state g = g\<lparr>status_labels := (status_labels g)(''fan_speed'' := fan_text (fan_speed state)),
      fan_var := (case map_of fan_reverse (fan_speed state) of Some name \<Rightarrow> name | None \<Rightarrow> fan_var g)\<rparr>"
  by (simp add: display_fan_speed_def config_label_def split: option.split)

lemma display_swing_eq:
  "display_swing state g = g\<lparr>status_labels := (status_labels g)
        (''vswing'' := (if vertical_swing state then ''ON'' else ''OFF''),
         ''hswing'' := (if horizontal_swing state then ''ON'' else ''OFF'')),
      vswing_var := vertical_swing state, hswing_var := horizontal_swing state\<rparr>"
  by (simp add: display_swing_def config_label_def)

lemma update_status_display_eq:
  "update_status_display now state g =
     g\<lparr>status_labels := (status_labels g)
          (''power'' := (if running state then ''ON'' else ''OFF''),
           ''mode'' := mode_text (mode state),
           ''target_temp'' := str_int (shown_temperature (temp_unit g) (target_temperature state)) @ unit_sign (temp_unit g),
           ''indoor_temp'' := str_int (shown_temperature (temp_unit g) (indoor_temperature state)) @ unit_sign (temp_unit g),
           ''fan_speed'' := fan_text (fan_speed state),
           ''vswing'' := (if vertical_swing state then ''ON'' else ''OFF''),
           ''hswing'' := (if horizontal_swing state then ''ON'' else ''OFF'')),
       power_foreground := (if running state then ''green'' else ''red''),
       mode_var := (case map_of mode_reverse (mode state) of Some name \<Rightarrow> name | None \<Rightarrow> mode_var g),
       temp_var := (if temp_slider_active g then temp_var g
                    else scale_clamp (temp_scale g)
                           (shown_temperature (temp_unit g) (target_temperature state))),
       temp_label := (if temp_slider_active g then temp_label g
                      else str_int (shown_temperature (temp_unit g) (target_temperature state)) @ degree @ temp_unit g),
       fan_var := (case map_of fan_reverse (fan_speed state) of Some name \<Rightarrow> name | None \<Rightarrow> fan_var g),
       vswing_var := vertical_swing state, hswing_var := horizontal_swing state,
       last_updated_label := now, status_bar := ''Status updated''\<rparr>"
  unfolding update_status_display_def Let_def update_status_bar_def
  by (rule gui.equality)
     (simp_all add: display_power_eq display_mode_eq
      display_temperatures_eq display_fan_speed_eq display_swing_eq
      split del: if_split cong: if_cong option.case_cong)


section \<open>Truncation: the conversions in integer arithmetic\<close>

lemma py_int_divide: "0 < b \<Longrightarrow> py_int (of_int a / of_int b) = trunc_div a b"
proof -
  assume b: "0 < b"
  have pos: "(0 \<le> (of_int a / of_int b :: rat)) = (0 \<le> a)"
    using b by (simp add: zero_le_divide_iff)
  have fl: "\<lfloor>(of_int a / of_int b :: rat)\<rfloor> = a div b"
    by (rule floor_divide_of_int_eq)
  have "\<lceil>(of_int a / of_int b :: rat)\<rceil> = - \<lfloor>(of_int (- a) / of_int b :: rat)\<rfloor>"
    by (simp add: ceiling_def)
  also have "\<dots> = - ((- a) div b)"
    by (simp only: floor_divide_of_int_eq)
  finally show ?thesis
    using pos fl by (simp add: py_int_def trunc_div_def)
qed

lemma celsius_to_fahrenheit_int: "celsius_to_fahrenheit c = trunc_div (9 * c + 160) 5"
proof -
  have "(of_int c * 9 / 5 + 32 :: rat) = of_int (9 * c + 160) / of_int 5"
    by (simp add: field_simps)
  then show ?thesis
    unfolding celsius_to_fahrenheit_def by (simp only: py_int_divide)
qed

lemma fahrenheit_to_celsius_int: "fahrenheit_to_celsius f = trunc_div (5 * (f - 32)) 9"
proof -
  have "(of_int (f - 32) * 5 / 9 :: rat) = of_int (5 * (f - 32)) / of_int 9"
    by (simp add: field_simps)
  then show ?thesis
    unfolding fahrenheit_to_celsius_def by (simp only: py_int_divide)
qed

text \<open>
  \<open>trunc_div\<close> is the quotient cut toward zero: its magnitude is the whole part of the
  magnitude of the quotient, and it never has the opposite sign.
\<close>

lemma trunc_div_bounds:
  "0 < b \<Longrightarrow>
     \<bar>trunc_div a b\<bar> * b \<le> \<bar>a\<bar> \<and> \<bar>a\<bar> < (\<bar>trunc_div a b\<bar> + 1) * b \<and> 0 \<le> trunc_div a b * a"
proof -
  assume b: "0 < b"
  have nn: "0 \<le> x \<Longrightarrow> (x div b) * b \<le> x \<and> x < (x div b + 1) * b \<and> 0 \<le> x div b"
    for x :: int
  proof -
    assume x: "0 \<le> x"
    have e: "x = (x div b) * b + x mod b" by simp
    have m: "0 \<le> x mod b \<and> x mod b < b" using b by simp
    have d: "0 \<le> x div b" using x b by (simp add: pos_imp_zdiv_nonneg_iff)
    have "x < (x div b) * b + b" using e m by linarith
    then have "x < (x div b + 1) * b" by (simp add: algebra_simps)
    moreover have "(x div b) * b \<le> x" using e m by linarith
    ultimately show ?thesis using d by simp
  qed
  show ?thesis
  proof (cases "0 \<le> a")
    case True
    then show ?thesis using nn [of a] by (simp add: trunc_div_def)
  next
    case False
    then have na: "0 \<le> - a" by simp
    have "0 \<le> ((- a) div b) * (- a)"
      using nn [OF na] na by (intro mult_nonneg_nonneg) simp_all
    then have "0 \<le> (- ((- a) div b)) * a" by simp
    then show ?thesis using False nn [OF na] by (simp add: trunc_div_def)
  qed
qed

text \<open>The rounding the specification words, in integer arithmetic.\<close>

lemma round_half_up_divide:
  "0 < b \<Longrightarrow> round_half_up (of_int a / of_int b) = (2 * a + b) div (2 * b)"
proof -
  assume b: "0 < b"
  then have "(of_int a / of_int b + 1 / 2 :: rat) = of_int (2 * a + b) / of_int (2 * b)"
    by (simp add: field_simps)
  then show ?thesis
    unfolding round_half_up_def by (simp only: floor_divide_of_int_eq)
qed


text \<open>Cutting toward zero and rounding to nearest differ by at most 1.\<close>

lemma conversions_near_rounding:
  "\<bar>spec_celsiusToFahrenheit c - celsius_to_fahrenheit c\<bar> \<le> 1 \<and>
   \<bar>spec_fahrenheitToCelsius f - fahrenheit_to_celsius f\<bar> \<le> 1"
proof -
  have ec: "(of_int c * 9 / 5 + 32 :: rat) = of_int (9 * c + 160) / of_int 5"
    by (simp add: field_simps)
  have a: "spec_celsiusToFahrenheit c = (2 * (9 * c + 160) + 5) div (2 * 5)"
    unfolding spec_celsiusToFahrenheit_def ec by (rule round_half_up_divide) simp
  have ef: "(of_int (f - 32) * 5 / 9 :: rat) = of_int (5 * (f - 32)) / of_int 9"
    by (simp add: field_simps)
  have b: "spec_fahrenheitToCelsius f = (2 * (5 * (f - 32)) + 9) div (2 * 9)"
    unfolding spec_fahrenheitToCelsius_def ef by (rule round_half_up_divide) simp
  have "\<bar>(2 * (9 * c + 160) + 5) div (2 * 5) - trunc_div (9 * c + 160) 5\<bar> \<le> 1"
    unfolding trunc_div_def by (auto; presburger)
  moreover have "\<bar>(2 * (5 * (f - 32)) + 9) div (2 * 9) - trunc_div (5 * (f - 32)) 9\<bar> \<le> 1"
    unfolding trunc_div_def by (auto; presburger)
  ultimately show ?thesis
    unfolding a b celsius_to_fahrenheit_int fahrenheit_to_celsius_int by simp
qed


section \<open>Temperature conversion\<close>

text \<open>
  Claim C6 as the specification states it: both conversions round to the nearest integer,
  ties upward. The source casts with \<^verbatim>\<open>int\<close>, which cuts toward zero: 1 degree Celsius is
  33.8 degrees Fahrenheit and becomes 33, where rounding gives 34; 60 degrees Fahrenheit
  is 15.56 degrees Celsius and becomes 15, where rounding gives 16.
\<close>

theorem conversion_rounding_counterexample:
  "celsius_to_fahrenheit 1 = 33 \<and> spec_celsiusToFahrenheit 1 = 34 \<and>
   fahrenheit_to_celsius 60 = 15 \<and> spec_fahrenheitToCelsius 60 = 16"
  by code_simp

text \<open>
  Claim C6, amended: for every integer input of magnitude below \<open>10^5\<close> the conversions
  are the exact values \<open>c * 9 / 5 + 32\<close> and \<open>(f - 32) * 5 / 9\<close> cut toward zero, that is
  the truncating quotients of \<open>9 * c + 160\<close> by 5 and of \<open>5 * (f - 32)\<close> by 9: the
  magnitude of the result is the whole part of the magnitude of the exact value, and the
  sign is kept.
\<close>

theorem conversions_truncate_toward_zero:
  "exact_range c \<Longrightarrow> exact_range f \<Longrightarrow>
   celsius_to_fahrenheit c = trunc_div (9 * c + 160) 5 \<and>
   fahrenheit_to_celsius f = trunc_div (5 * (f - 32)) 9 \<and>
   \<bar>celsius_to_fahrenheit c\<bar> * 5 \<le> \<bar>9 * c + 160\<bar> \<and>
   \<bar>9 * c + 160\<bar> < (\<bar>celsius_to_fahrenheit c\<bar> + 1) * 5 \<and>
   0 \<le> celsius_to_fahrenheit c * (9 * c + 160) \<and>
   \<bar>fahrenheit_to_celsius f\<bar> * 9 \<le> \<bar>5 * (f - 32)\<bar> \<and>
   \<bar>5 * (f - 32)\<bar> < (\<bar>fahrenheit_to_celsius f\<bar> + 1) * 9 \<and>
   0 \<le> fahrenheit_to_celsius f * (5 * (f - 32))"
  using trunc_div_bounds [of 5 "9 * c + 160"] trunc_div_bounds [of 9 "5 * (f - 32)"]
  by (simp only: celsius_to_fahrenheit_int fahrenheit_to_celsius_int)

theorem conversions_truncate_toward_zero_witness:
  "exact_range 24 \<and> exact_range 75 \<and> exact_range (- 20) \<and> exact_range 0 \<and>
   celsius_to_fahrenheit 24 = 75 \<and> fahrenheit_to_celsius 75 = 23 \<and>
   celsius_to_fahrenheit (- 20) = - 4 \<and> fahrenheit_to_celsius 0 = - 17"
  using conversions_truncate_toward_zero [of 24 75] conversions_truncate_toward_zero [of "- 20" 0]
  by (simp add: trunc_div_def exact_range_def)

text \<open>
  Claim C7: for every integer Celsius temperature from -10 to 40, converting to Fahrenheit
  and back, with the conversions of the source, gives a value at most 1 away.
\<close>

theorem unit_round_trip_drift:
  "- 10 \<le> c \<Longrightarrow> c \<le> 40 \<Longrightarrow> \<bar>fahrenheit_to_celsius (celsius_to_fahrenheit c) - c\<bar> \<le> 1"
  unfolding celsius_to_fahrenheit_int fahrenheit_to_celsius_int trunc_div_def
  by (auto; presburger)

theorem unit_round_trip_drift_witness:
  "(- 10 :: int) \<le> 1 \<and> (1 :: int) \<le> 40 \<and>
   fahrenheit_to_celsius (celsius_to_fahrenheit 1) = 0 \<and>
   \<bar>fahrenheit_to_celsius (celsius_to_fahrenheit 1) - 1\<bar> \<le> 1"
  using unit_round_trip_drift [of 1]
  by (simp add: celsius_to_fahrenheit_int fahrenheit_to_celsius_int trunc_div_def)


section \<open>The gateway, case by case\<close>

lemma get_device_connected: "device g = Some r \<Longrightarrow> get_device conn g = (Some r, g)"
  by (simp add: get_device_def)

lemma get_device_raises:
  "device g = None \<Longrightarrow> get_device (Raises e) g =
     (None, g\<lparr>dialogs := dialogs g @ [(''Connection Error'', ''Failed to connect to device:'' @ newline @ e)]\<rparr>)"
  by (simp add: get_device_def)

lemma get_device_returns:
  "device g = None \<Longrightarrow> get_device (Returns s) g =
     (Some (next_ref g), g\<lparr>device := Some (next_ref g), store := (store g)(next_ref g := s),
        next_ref := Suc (next_ref g)\<rparr>)"
  by (simp add: get_device_def)

lemma refresh_status_connect_raises:
  "device g = None \<Longrightarrow> refresh_status now (Raises e) st g =
     g\<lparr>status_bar := ''Refreshing status...'',
       dialogs := dialogs g @ [(''Connection Error'', ''Failed to connect to device:'' @ newline @ e)]\<rparr>"
  by (simp add: refresh_status_def update_status_bar_def get_device_raises)

lemma refresh_status_state_raises:
  "device g = Some r \<Longrightarrow> refresh_status now conn (Raises e) g = g\<lparr>status_bar := ''Error: '' @ e\<rparr>"
  by (simp add: refresh_status_def update_status_bar_def get_device_connected)

lemma refresh_status_connect_then_raises:
  "device g = None \<Longrightarrow> refresh_status now (Returns s) (Raises e) g =
     g\<lparr>status_bar := ''Error: '' @ e, device := Some (next_ref g),
       store := (store g)(next_ref g := s), next_ref := Suc (next_ref g)\<rparr>"
  by (simp add: refresh_status_def update_status_bar_def get_device_returns)

lemma refresh_status_fetched:
  "device g = Some r \<Longrightarrow> refresh_status now conn (Returns s) g =
     update_status_display now s
       (g\<lparr>status_bar := ''Refreshing status...'', store := (store g)(r := s), current_state := Some r\<rparr>)"
  by (simp add: refresh_status_def update_status_bar_def get_device_connected)

lemma refresh_status_connect_fetched:
  "device g = None \<Longrightarrow> refresh_status now (Returns s0) (Returns s) g =
     update_status_display now s
       (g\<lparr>status_bar := ''Refreshing status...'', device := Some (next_ref g),
          next_ref := Suc (next_ref g),
          store := (store g)(next_ref g := s), current_state := Some (next_ref g)\<rparr>)"
  by (simp add: refresh_status_def update_status_bar_def get_device_returns)

lemma refresh_status_flags:
  "app_running (refresh_status now conn st g) = app_running g \<and>
   auto_refresh (refresh_status now conn st g) = auto_refresh g"
proof (cases "device g")
  case None
  then show ?thesis
    by (cases conn; cases st)
       (simp_all add: refresh_status_connect_raises refresh_status_connect_then_raises
          refresh_status_connect_fetched update_status_display_eq)
next
  case (Some r)
  then show ?thesis
    by (cases st)
       (simp_all add: refresh_status_state_raises refresh_status_fetched update_status_display_eq)
qed

lemma refreshes_started_all:
  "app_running g \<Longrightarrow> auto_refresh g \<Longrightarrow> refreshes_started cycles g = length cycles"
proof (induction cycles arbitrary: g)
  case Nil
  then show ?case by simp
next
  case (Cons c cycles)
  obtain now conn st where c: "c = (now, conn, st)" by (cases c) auto
  have "app_running (refresh_status now conn st g)" "auto_refresh (refresh_status now conn st g)"
    using Cons.prems by (simp_all add: refresh_status_flags)
  then have "refreshes_started cycles (refresh_status now conn st g) = length cycles"
    by (rule Cons.IH)
  then show ?case using Cons.prems c by simp
qed

lemma connected_gui_refs:
  "device connected_gui = Some 0 \<and> current_state connected_gui = Some 0 \<and>
   store connected_gui 0 = scenario_state \<and> next_ref connected_gui = 1 \<and>
   applied connected_gui = [] \<and> dialogs connected_gui = []"
  by (simp add: connected_gui_def init_gui_def refresh_status_connect_fetched update_status_display_eq)


section \<open>Reconciliation and fetch failures\<close>



text \<open>
  Claim C2: when a fetch fails during a refresh, nothing of the display is written and the
  remembered state stays; the failure is reported (a failed connection by the dialog of
  \<^verbatim>\<open>get_device\<close>, a failed read of the state on the status bar); and the polling loop
  goes on: every later pass starts its refresh.
\<close>

theorem fetch_failure_keeps_display:
  "(device g = None \<longrightarrow>
      display_model (refresh_status now (Raises e) st g) = display_model g \<and>
      current_state (refresh_status now (Raises e) st g) = current_state g \<and>
      dialogs (refresh_status now (Raises e) st g) =
        dialogs g @ [(''Connection Error'', ''Failed to connect to device:'' @ newline @ e)] \<and>
      status_bar (refresh_status now (Raises e) st g) = ''Refreshing status...'') \<and>
   (device g = None \<longrightarrow>
      display_model (refresh_status now (Returns s) (Raises e) g) = display_model g \<and>
      current_state (refresh_status now (Returns s) (Raises e) g) = current_state g \<and>
      dialogs (refresh_status now (Returns s) (Raises e) g) = dialogs g \<and>
      status_bar (refresh_status now (Returns s) (Raises e) g) = ''Error: '' @ e) \<and>
   (device g = Some r \<longrightarrow>
      display_model (refresh_status now conn (Raises e) g) = display_model g \<and>
      current_state (refresh_status now conn (Raises e) g) = current_state g \<and>
      dialogs (refresh_status now conn (Raises e) g) = dialogs g \<and>
      status_bar (refresh_status now conn (Raises e) g) = ''Error: '' @ e) \<and>
   (app_running g \<and> auto_refresh g \<longrightarrow>
      auto_refresh_loop ((now, conn, st) # cycles) g =
        auto_refresh_loop cycles (refresh_status now conn st g) \<and>
      refreshes_started ((now, conn, st) # cycles) g = Suc (length cycles))"
proof -
  have "app_running g \<Longrightarrow> auto_refresh g \<Longrightarrow>
     refreshes_started ((now, conn, st) # cycles) g = Suc (length cycles)"
    using refreshes_started_all [of g "(now, conn, st) # cycles"] by simp
  then show ?thesis
    by (auto simp add: refresh_status_connect_raises refresh_status_connect_then_raises
        refresh_status_state_raises display_model_def)
qed

theorem fetch_failure_keeps_display_witness:
  "device init_gui = None \<and>
   display_model (refresh_status ''12:00:00'' (Raises ''timed out'') (Raises []) init_gui) =
     display_model init_gui \<and>
   app_running init_gui \<and> auto_refresh init_gui \<and>
   refreshes_started [(''12:00:00'', Raises ''timed out'', Raises []),
      (''12:00:05'', Returns scenario_state, Returns scenario_state)] init_gui = 2 \<and>
   status_labels (auto_refresh_loop [(''12:00:00'', Raises ''timed out'', Raises []),
      (''12:00:05'', Returns scenario_state, Returns scenario_state)] init_gui) ''power'' = ''OFF'' \<and>
   device connected_gui = Some 0 \<and>
   display_model (refresh_status ''12:00:10'' (Raises []) (Raises ''timed out'') connected_gui) =
     display_model connected_gui \<and>
   status_bar (refresh_status ''12:00:10'' (Raises []) (Raises ''timed out'') connected_gui) =
     ''Error: timed out''"
  using fetch_failure_keeps_display [of init_gui "''12:00:00''" "''timed out''" "Raises []" scenario_state 0
          "Raises ''timed out''" "[(''12:00:05'', Returns scenario_state, Returns scenario_state)]"]
        fetch_failure_keeps_display [of connected_gui "''12:00:10''" "''timed out''" "Raises []" scenario_state 0
          "Raises []" "[]"]
  by (simp add: connected_gui_refs)
     (simp add: init_gui_def refresh_status_connect_raises refresh_status_connect_fetched
        update_status_display_eq scenario_state_def)


section \<open>Commands and the symbol lookups\<close>

text \<open>
  With a connection in hand and the assignment accepted, a command's thread writes its
  attribute into the state object of that connection, calls \<^verbatim>\<open>apply()\<close> on it and
  allocates nothing. When the assignment raises, nothing is written, \<^verbatim>\<open>apply()\<close> is not
  called and the dialog of the handler is shown.
\<close>

lemma announce_frame:
  "device (announce c g) = device g \<and> store (announce c g) = store g \<and>
   applied (announce c g) = applied g \<and> dialogs (announce c g) = dialogs g \<and>
   current_state (announce c g) = current_state g \<and> next_ref (announce c g) = next_ref g"
  by (cases c) (simp_all add: update_status_bar_def)

lemma run_thread_connected:
  "device g = Some r \<Longrightarrow>
     store (run_thread c conn (Returns u) ap g) = (store g)(r := assign c (store g r)) \<and>
     applied (run_thread c conn (Returns u) ap g) = applied g @ [assign c (store g r)] \<and>
     device (run_thread c conn asg ap g) = Some r \<and>
     current_state (run_thread c conn asg ap g) = current_state g \<and>
     next_ref (run_thread c conn asg ap g) = next_ref g"
  by (cases ap; cases asg)
     (simp_all add: run_thread_def get_device_connected update_status_bar_def Let_def)

lemma run_thread_refused:
  "device g = Some r \<Longrightarrow>
     store (run_thread c conn (Raises e) ap g) = store g \<and>
     applied (run_thread c conn (Raises e) ap g) = applied g \<and>
     dialogs (run_thread c conn (Raises e) ap g) = dialogs g @ [(''Error'', failed_message c @ e)]"
  by (simp add: run_thread_def get_device_connected)

lemma run_thread_returns:
  "device g = Some r \<Longrightarrow>
     dialogs (run_thread c conn (Returns u') (Returns u) g) = dialogs g \<and>
     status_bar (run_thread c conn (Returns u') (Returns u) g) = done_message c \<and>
     scheduled_refreshes (run_thread c conn (Returns u') (Returns u) g) =
       Suc (scheduled_refreshes g)"
  by (simp add: run_thread_def get_device_connected update_status_bar_def Let_def)

lemma issue_connected:
  "device g = Some r \<Longrightarrow>
     store (issue c conn (Returns u) ap g) = (store g)(r := assign c (store g r)) \<and>
     applied (issue c conn (Returns u) ap g) = applied g @ [assign c (store g r)] \<and>
     device (issue c conn asg ap g) = Some r \<and>
     current_state (issue c conn asg ap g) = current_state g \<and>
     next_ref (issue c conn asg ap g) = next_ref g"
  unfolding issue_def
  using run_thread_connected [of "announce c g" r c conn u ap asg]
  by (simp add: announce_frame)

lemma issue_refused:
  "device g = Some r \<Longrightarrow>
     store (issue c conn (Raises e) ap g) = store g \<and>
     applied (issue c conn (Raises e) ap g) = applied g \<and>
     dialogs (issue c conn (Raises e) ap g) = dialogs g @ [(''Error'', failed_message c @ e)]"
  unfolding issue_def using run_thread_refused [of "announce c g" r c conn e ap]
  by (simp add: announce_frame)

lemma issue_returns:
  "device g = Some r \<Longrightarrow>
     dialogs (issue c conn (Returns u') (Returns u) g) = dialogs g \<and>
     status_bar (issue c conn (Returns u') (Returns u) g) = done_message c"
  unfolding issue_def using run_thread_returns [of "announce c g" r c conn u' u]
  by (simp add: announce_frame)

lemma mode_num_default:
  "name \<notin> {''auto'', ''cool'', ''dry'', ''heat'', ''fan''} \<Longrightarrow> mode_num name = 1"
  by (simp add: mode_num_def dict_get_def set_mode_map_def)

lemma fan_speed_num_default:
  "name \<notin> {''Auto'', ''Low'', ''Med-Low'', ''Medium'', ''Med-High'', ''High''} \<Longrightarrow>
     fan_speed_num name = 102"
  by (simp add: fan_speed_num_def dict_get_def set_fan_map_def)

text \<open>
  Claim C3 as the specification states it: a name outside the vocabulary makes the lookup
  fail with \<open>UnknownSymbol\<close>. The source looks names up with \<^verbatim>\<open>mode_map.get(mode, 1)\<close>
  and \<^verbatim>\<open>fan_map.get(fan, 102)\<close>: for the name \<^verbatim>\<open>turbo\<close> the mode lookup yields 1,
  \<^verbatim>\<open>set_mode\<close> pushes mode 1 to the device, no dialog appears and the status bar reports
  success; the fan lookup of \<^verbatim>\<open>Turbo\<close> yields 102.
\<close>

theorem unknown_symbol_counterexample:
  "map_of set_mode_map ''turbo'' = None \<and>
   spec_symbolToMode ''turbo'' = Inl UnknownSymbol \<and>
   mode_num ''turbo'' = 1 \<and>
   mode (store (set_mode (Raises []) (Returns ()) (Returns ())
     (connected_gui\<lparr>mode_var := ''turbo''\<rparr>)) 0) = 1 \<and>
   map mode (applied (set_mode (Raises []) (Returns ()) (Returns ())
     (connected_gui\<lparr>mode_var := ''turbo''\<rparr>))) = [1] \<and>
   dialogs (set_mode (Raises []) (Returns ()) (Returns ())
     (connected_gui\<lparr>mode_var := ''turbo''\<rparr>)) = [] \<and>
   status_bar (set_mode (Raises []) (Returns ()) (Returns ())
     (connected_gui\<lparr>mode_var := ''turbo''\<rparr>)) = ''Mode set to turbo'' \<and>
   spec_symbolToFan ''Turbo'' = Inl UnknownSymbol \<and>
   fan_speed_num ''Turbo'' = 102"
proof -
  have d: "device (connected_gui\<lparr>mode_var := ''turbo''\<rparr>) = Some 0"
    by (simp add: connected_gui_refs)
  have m: "mode_num ''turbo'' = 1"
    by (simp add: mode_num_default)
  have f: "fan_speed_num ''Turbo'' = 102"
    by (simp add: fan_speed_num_default)
  show ?thesis
    using issue_connected [OF d, of "SetMode ''turbo'' 1" "Raises []" "()" "Returns ()" "Returns ()"]
          issue_returns [OF d, of "SetMode ''turbo'' 1" "Raises []" "()" "()"]
    by (simp add: set_mode_def Let_def m f connected_gui_refs spec_symbolToMode_def
        spec_symbolToFan_def set_mode_map_def set_fan_map_def)
qed

text \<open>
  Claim C3, amended: for every name outside the vocabulary the lookups do not fail; the
  mode lookup yields the code 1 (auto) and the fan lookup the code 102 (Auto). With a
  connected device, the assignment accepted and \<^verbatim>\<open>apply()\<close> returning, \<^verbatim>\<open>set_mode\<close> and
  \<^verbatim>\<open>set_fan_speed\<close> write that code into the device state, push the state holding it (it
  is the one entry added to the pushes), and show no error dialog.
\<close>

theorem unknown_symbol_falls_back:
  "(mode_var g \<notin> {''auto'', ''cool'', ''dry'', ''heat'', ''fan''} \<and> device g = Some r \<longrightarrow>
      mode_num (mode_var g) = 1 \<and>
      mode (store (set_mode conn (Returns u') (Returns u) g) r) = 1 \<and>
      applied (set_mode conn (Returns u') (Returns u) g) =
        applied g @ [(store g r)\<lparr>mode := 1\<rparr>] \<and>
      dialogs (set_mode conn (Returns u') (Returns u) g) = dialogs g \<and>
      status_bar (set_mode conn (Returns u') (Returns u) g) = ''Mode set to '' @ mode_var g) \<and>
   (fan_var g \<notin> {''Auto'', ''Low'', ''Med-Low'', ''Medium'', ''Med-High'', ''High''} \<and>
    device g = Some r \<longrightarrow>
      fan_speed_num (fan_var g) = 102 \<and>
      fan_speed (store (set_fan_speed conn (Returns u') (Returns u) g) r) = 102 \<and>
      applied (set_fan_speed conn (Returns u') (Returns u) g) =
        applied g @ [(store g r)\<lparr>fan_speed := 102\<rparr>] \<and>
      dialogs (set_fan_speed conn (Returns u') (Returns u) g) = dialogs g \<and>
      status_bar (set_fan_speed conn (Returns u') (Returns u) g) =
        ''Fan speed set to '' @ fan_var g)"
  by (simp add: set_mode_def set_fan_speed_def Let_def issue_connected issue_returns
      mode_num_default fan_speed_num_default)

theorem unknown_symbol_falls_back_witness:
  "mode_var (connected_gui\<lparr>mode_var := ''turbo''\<rparr>) \<notin> {''auto'', ''cool'', ''dry'', ''heat'', ''fan''} \<and>
   device (connected_gui\<lparr>mode_var := ''turbo''\<rparr>) = Some 0 \<and>
   mode (store (set_mode (Raises []) (Returns ()) (Returns ())
     (connected_gui\<lparr>mode_var := ''turbo''\<rparr>)) 0) = 1 \<and>
   applied (set_mode (Raises []) (Returns ()) (Returns ())
     (connected_gui\<lparr>mode_var := ''turbo''\<rparr>)) = [scenario_state\<lparr>mode := 1\<rparr>] \<and>
   fan_var (connected_gui\<lparr>fan_var := ''Turbo''\<rparr>) \<notin>
     {''Auto'', ''Low'', ''Med-Low'', ''Medium'', ''Med-High'', ''High''} \<and>
   device (connected_gui\<lparr>fan_var := ''Turbo''\<rparr>) = Some 0 \<and>
   fan_speed (store (set_fan_speed (Raises []) (Returns ()) (Returns ())
     (connected_gui\<lparr>fan_var := ''Turbo''\<rparr>)) 0) = 102 \<and>
   applied (set_fan_speed (Raises []) (Returns ()) (Returns ())
     (connected_gui\<lparr>fan_var := ''Turbo''\<rparr>)) = [scenario_state\<lparr>fan_speed := 102\<rparr>]"
  using unknown_symbol_falls_back [of "connected_gui\<lparr>mode_var := ''turbo''\<rparr>" 0 "Raises []" "()" "()"]
        unknown_symbol_falls_back [of "connected_gui\<lparr>fan_var := ''Turbo''\<rparr>" 0 "Raises []" "()" "()"]
  by (simp add: connected_gui_refs)


section \<open>Code translation\<close>










section \<open>The unit toggle\<close>

lemma select_unit_celsius:
  "temp_scale (select_unit ''C'' g) = (16, 31) \<and>
   temp_var (select_unit ''C'' g) =
     scale_clamp (16, 31)
       (if temp_var g > 31 then fahrenheit_to_celsius (temp_var g) else temp_var g) \<and>
   temp_label (select_unit ''C'' g) = str_int (temp_var (select_unit ''C'' g)) @ degree @ ''C''"
  by (simp add: select_unit_def update_temp_scale_def temp_scale_configure_def temp_var_set_def
      on_temp_change_def Let_def)

lemma select_unit_fahrenheit:
  "temp_scale (select_unit ''F'' g) = (60, 87) \<and>
   temp_var (select_unit ''F'' g) =
     scale_clamp (60, 87)
       (if temp_var g < 60 then celsius_to_fahrenheit (temp_var g) else temp_var g) \<and>
   temp_label (select_unit ''F'' g) = str_int (temp_var (select_unit ''F'' g)) @ degree @ ''F''"
  by (simp add: select_unit_def update_temp_scale_def temp_scale_configure_def temp_var_set_def
      on_temp_change_def Let_def)

text \<open>
  The conversion alone keeps 61..87 degrees Fahrenheit inside 16..30 and 16..31 degrees
  Celsius inside 60..87; at 60 degrees Fahrenheit it gives 15, which the slider stores as
  its minimum, 16.
\<close>

lemma fahrenheit_range_converted:
  "61 \<le> f \<Longrightarrow> f \<le> 87 \<Longrightarrow> 16 \<le> fahrenheit_to_celsius f \<and> fahrenheit_to_celsius f \<le> 30"
  unfolding fahrenheit_to_celsius_int trunc_div_def by (simp; presburger)

lemma celsius_range_converted:
  "16 \<le> c \<Longrightarrow> c \<le> 31 \<Longrightarrow> 60 \<le> celsius_to_fahrenheit c \<and> celsius_to_fahrenheit c \<le> 87"
  unfolding celsius_to_fahrenheit_int trunc_div_def by (simp; presburger)

lemma fahrenheit_minimum_converted: "fahrenheit_to_celsius 60 = 15"
  by (simp add: fahrenheit_to_celsius_int trunc_div_def)

text \<open>
  Claim C10: a slider value inside the range of the unit in use (60 to 87 in Fahrenheit, 16
  to 31 in Celsius) is taken, when the unit is toggled, into the range
  \<^verbatim>\<open>update_temp_scale\<close> configures for the new unit: into 16..31 after a switch to Celsius and
  into 60..87 after a switch to Fahrenheit. The value stored is the converted value, except
  at 60 degrees Fahrenheit, where it is the minimum 16 of the new range.
\<close>

theorem unit_toggle_stays_in_range:
  "(60 \<le> temp_var g \<and> temp_var g \<le> 87 \<longrightarrow>
      temp_scale (select_unit ''C'' g) = (16, 31) \<and>
      16 \<le> temp_var (select_unit ''C'' g) \<and> temp_var (select_unit ''C'' g) \<le> 31 \<and>
      temp_var (select_unit ''C'' g) =
        (if temp_var g = 60 then 16 else fahrenheit_to_celsius (temp_var g))) \<and>
   (16 \<le> temp_var g \<and> temp_var g \<le> 31 \<longrightarrow>
      temp_scale (select_unit ''F'' g) = (60, 87) \<and>
      60 \<le> temp_var (select_unit ''F'' g) \<and> temp_var (select_unit ''F'' g) \<le> 87 \<and>
      temp_var (select_unit ''F'' g) = celsius_to_fahrenheit (temp_var g))"
proof -
  have c: "temp_var (select_unit ''C'' g) =
      (if temp_var g = 60 then 16 else fahrenheit_to_celsius (temp_var g)) \<and>
      16 \<le> temp_var (select_unit ''C'' g) \<and> temp_var (select_unit ''C'' g) \<le> 31"
    if "60 \<le> temp_var g" "temp_var g \<le> 87"
  proof (cases "temp_var g = 60")
    case True
    then show ?thesis
      by (simp add: select_unit_celsius fahrenheit_minimum_converted scale_clamp_def)
  next
    case False
    then have "61 \<le> temp_var g" using that by simp
    then show ?thesis
      using fahrenheit_range_converted [of "temp_var g"] that False
      by (simp add: select_unit_celsius scale_clamp_def)
  qed
  have f: "temp_var (select_unit ''F'' g) = celsius_to_fahrenheit (temp_var g) \<and>
      60 \<le> temp_var (select_unit ''F'' g) \<and> temp_var (select_unit ''F'' g) \<le> 87"
    if "16 \<le> temp_var g" "temp_var g \<le> 31"
    using celsius_range_converted [of "temp_var g"] that
    by (simp add: select_unit_fahrenheit scale_clamp_def)
  have "temp_scale (select_unit ''C'' g) = (16, 31)" "temp_scale (select_unit ''F'' g) = (60, 87)"
    by (simp_all only: select_unit_celsius select_unit_fahrenheit)
  then show ?thesis
    using c f by blast
qed

theorem unit_toggle_stays_in_range_witness:
  "(60 :: int) \<le> temp_var (init_gui\<lparr>temp_var := 60\<rparr>) \<and>
   temp_var (init_gui\<lparr>temp_var := 60\<rparr>) \<le> 87 \<and>
   temp_var (select_unit ''C'' (init_gui\<lparr>temp_var := 60\<rparr>)) = 16 \<and>
   temp_scale (select_unit ''C'' (init_gui\<lparr>temp_var := 60\<rparr>)) = (16, 31) \<and>
   (16 :: int) \<le> temp_var (init_gui\<lparr>temp_var := 22, temp_unit := ''C'', temp_scale := (16, 31)\<rparr>) \<and>
   temp_var (init_gui\<lparr>temp_var := 22, temp_unit := ''C'', temp_scale := (16, 31)\<rparr>) \<le> 31 \<and>
   temp_var (select_unit ''F''
     (init_gui\<lparr>temp_var := 22, temp_unit := ''C'', temp_scale := (16, 31)\<rparr>)) = 71"
  using unit_toggle_stays_in_range [of "init_gui\<lparr>temp_var := 60\<rparr>"]
        unit_toggle_stays_in_range
          [of "init_gui\<lparr>temp_var := 22, temp_unit := ''C'', temp_scale := (16, 31)\<rparr>"]
  by (simp add: celsius_to_fahrenheit_int trunc_div_def)


section \<open>The aliasing of the device state\<close>

text \<open>
  Claim C8 as the specification states it: a command leaves every snapshot of the device
  state untouched and pushes a fresh copy. In the source \<^verbatim>\<open>self.current_state\<close> and
  \<^verbatim>\<open>device.state\<close> are one object after a refresh, and \<^verbatim>\<open>set_power\<close> assigns
  \<^verbatim>\<open>device.state.running\<close>: the snapshot that was off reads on after the command, also
  when \<^verbatim>\<open>apply()\<close> raises.
\<close>

theorem snapshot_mutated_counterexample:
  "current_state connected_gui = Some 0 \<and> device connected_gui = Some 0 \<and>
   running (store connected_gui 0) = False \<and>
   current_state (set_power True (Raises []) (Returns ()) (Returns ()) connected_gui) = Some 0 \<and>
   running (store (set_power True (Raises []) (Returns ()) (Returns ()) connected_gui) 0) = True \<and>
   running (store (set_power True (Raises []) (Returns ()) (Raises ''timed out'') connected_gui) 0) =
     True \<and>
   next_ref (set_power True (Raises []) (Returns ()) (Returns ()) connected_gui) =
     next_ref connected_gui"
proof -
  have d: "device connected_gui = Some 0"
    by (simp add: connected_gui_refs)
  show ?thesis
    using issue_connected [OF d, of "SetPower True" "Raises []" "()" "Returns ()" "Returns ()"]
          issue_connected [OF d, of "SetPower True" "Raises []" "()" "Raises ''timed out''" "Returns ()"]
    by (simp add: set_power_def connected_gui_refs scenario_state_def)
qed

text \<open>
  Claim C8, amended: every command (\<^verbatim>\<open>set_power\<close>, \<^verbatim>\<open>set_mode\<close>, \<^verbatim>\<open>set_temperature\<close>,
  \<^verbatim>\<open>set_fan_speed\<close>, \<^verbatim>\<open>set_vswing\<close>, \<^verbatim>\<open>set_hswing\<close>) whose assignment the library accepts
  writes its one attribute in place into the state object of the connection and calls
  \<^verbatim>\<open>apply()\<close> on that object; no copy is made (no object is allocated and the references
  stay), so a snapshot held elsewhere, such as \<^verbatim>\<open>self.current_state\<close>, shows the new value
  and all other attributes as before, whether \<^verbatim>\<open>apply()\<close> returns or raises. When the
  assignment raises, nothing is written, nothing is pushed and the error dialog of the
  handler is shown. (The temperature written is the slider value converted, stated for
  slider values inside \<open>exact_range\<close>.)
\<close>

theorem commands_write_in_place:
  "device g = Some r \<Longrightarrow>
     store (set_power power_on conn (Returns u) ap g) =
       (store g)(r := (store g r)\<lparr>running := power_on\<rparr>) \<and>
     store (set_mode conn (Returns u) ap g) =
       (store g)(r := (store g r)\<lparr>mode := mode_num (mode_var g)\<rparr>) \<and>
     (exact_range (temp_var g) \<longrightarrow>
        store (set_temperature conn (Returns u) ap g) =
          (store g)(r := (store g r)\<lparr>target_temperature :=
             (if temp_unit g = ''C'' then temp_var g else fahrenheit_to_celsius (temp_var g))\<rparr>)) \<and>
     store (set_fan_speed conn (Returns u) ap g) =
       (store g)(r := (store g r)\<lparr>fan_speed := fan_speed_num (fan_var g)\<rparr>) \<and>
     store (set_vswing conn (Returns u) ap g) =
       (store g)(r := (store g r)\<lparr>vertical_swing := vswing_var g\<rparr>) \<and>
     store (set_hswing conn (Returns u) ap g) =
       (store g)(r := (store g r)\<lparr>horizontal_swing := hswing_var g\<rparr>) \<and>
     (\<forall>g' \<in> {set_power power_on conn (Returns u) ap g, set_mode conn (Returns u) ap g,
                set_temperature conn (Returns u) ap g, set_fan_speed conn (Returns u) ap g,
                set_vswing conn (Returns u) ap g, set_hswing conn (Returns u) ap g}.
        device g' = Some r \<and> current_state g' = current_state g \<and> next_ref g' = next_ref g \<and>
        applied g' = applied g @ [store g' r]) \<and>
     (\<forall>g' \<in> {set_power power_on conn (Raises e) ap g, set_mode conn (Raises e) ap g,
                set_temperature conn (Raises e) ap g, set_fan_speed conn (Raises e) ap g,
                set_vswing conn (Raises e) ap g, set_hswing conn (Raises e) ap g}.
        store g' = store g \<and> applied g' = applied g \<and> device g' = Some r \<and>
        current_state g' = current_state g \<and> next_ref g' = next_ref g \<and>
        length (dialogs g') = Suc (length (dialogs g))) \<and>
     dialogs (set_temperature conn (Raises e) ap g) =
       dialogs g @ [(''Error'', ''Failed to set temperature:'' @ newline @ e)]"
  by (simp add: set_power_def set_mode_def set_temperature_def set_fan_speed_def set_vswing_def
      set_hswing_def Let_def issue_connected issue_refused)

theorem commands_write_in_place_witness:
  "device connected_gui = Some 0 \<and>
   store (set_power True (Raises []) (Returns ()) (Returns ()) connected_gui) 0 =
     scenario_state\<lparr>running := True\<rparr> \<and>
   applied (set_power True (Raises []) (Returns ()) (Returns ()) connected_gui) =
     [scenario_state\<lparr>running := True\<rparr>] \<and>
   current_state (set_power True (Raises []) (Returns ()) (Returns ()) connected_gui) = Some 0 \<and>
   exact_range (temp_var connected_gui) \<and>
   store (set_temperature (Raises []) (Returns ()) (Returns ()) connected_gui) 0 =
     scenario_state\<lparr>target_temperature := 23\<rparr> \<and>
   store (set_temperature (Raises []) (Raises ''refused'') (Returns ()) connected_gui) 0 =
     scenario_state \<and>
   applied (set_temperature (Raises []) (Raises ''refused'') (Returns ()) connected_gui) = []"
  using commands_write_in_place [of connected_gui 0 True "Raises []" "()" "Returns ()" "''refused''"]
  by (simp add: connected_gui_refs)
     (simp add: connected_gui_def init_gui_def refresh_status_connect_fetched
        update_status_display_eq scenario_state_def shown_temperature_def scale_clamp_def
        celsius_to_fahrenheit_int fahrenheit_to_celsius_int trunc_div_def exact_range_def)


section \<open>Command threads: pushes under every schedule\<close>

text \<open>
  A step of a thread keeps its command, and adds one entry to \<open>applied\<close> exactly when the
  thread enters \<^verbatim>\<open>apply()\<close>.
\<close>

lemma thread_step_frame:
  "thread_step t g = (t', g') \<Longrightarrow>
     thread_command t' = thread_command t \<and> thread_accepted t' = thread_accepted t \<and>
     length (applied g') + (if called_apply (thread_pc t) then 1 else 0) =
       length (applied g) + (if called_apply (thread_pc t') then 1 else 0)"
proof (cases t)
  case (Thread c conn asg ap p)
  assume s: "thread_step t g = (t', g')"
  show ?thesis
  proof (cases p)
    case Started
    then show ?thesis using s Thread
      by (cases "device g"; cases conn) (auto simp add: get_device_def)
  next
    case (Connected r)
    then show ?thesis using s Thread
      by (cases asg) auto
  next
    case (Applying r)
    then show ?thesis using s Thread
      by (cases ap) (auto simp add: update_status_bar_def)
  qed (use s Thread in auto)
qed

lemma pushes_called_update:
  "i < length ts \<Longrightarrow>
     pushes_called (ts[i := t]) + (if called_apply (thread_pc (ts ! i)) then 1 else 0) =
       pushes_called ts + (if called_apply (thread_pc t) then 1 else 0)"
  unfolding pushes_called_def
proof (induction ts arbitrary: i)
  case Nil
  then show ?case by simp
next
  case (Cons a ts)
  then show ?case
    by (cases i) (auto simp del: called_apply.simps)
qed

lemma exec_event_pushes:
  "exec_event (ts, g) ev = (ts', g') \<Longrightarrow>
     length (applied g') + pushes_called ts = length (applied g) + pushes_called ts'"
proof (cases ev)
  case (Spawn c conn asg ap)
  assume "exec_event (ts, g) ev = (ts', g')"
  then show ?thesis using Spawn
    by (auto simp add: pushes_called_def announce_frame)
next
  case (Step i)
  assume e: "exec_event (ts, g) ev = (ts', g')"
  show ?thesis
  proof (cases "i < length ts")
    case True
    obtain t where t: "thread_step (ts ! i) g = (t, g')" and ts': "ts' = ts[i := t]"
      using e Step True by (auto split: prod.splits)
    show ?thesis
      using thread_step_frame [OF t] pushes_called_update [OF True, of t] ts'
      by (simp split: if_splits)
  next
    case False
    then show ?thesis using e Step by simp
  qed
qed

lemma exec_pushes:
  "exec evs (ts, g) = (ts', g') \<Longrightarrow>
     length (applied g') + pushes_called ts = length (applied g) + pushes_called ts'"
  unfolding exec_def
proof (induction evs arbitrary: ts g)
  case Nil
  then show ?case by simp
next
  case (Cons ev evs)
  obtain ts1 g1 where s: "exec_event (ts, g) ev = (ts1, g1)"
    by (cases "exec_event (ts, g) ev") auto
  have "foldl exec_event (ts1, g1) evs = (ts', g')"
    using Cons.prems s by simp
  then have "length (applied g') + pushes_called ts1 = length (applied g1) + pushes_called ts'"
    by (rule Cons.IH)
  then show ?case using exec_event_pushes [OF s] by simp
qed

text \<open>
  With a connection in hand and every assignment accepted, no thread ends before its call
  of \<^verbatim>\<open>apply()\<close>.
\<close>

lemma thread_step_connected:
  "device g = Some r \<Longrightarrow> on_course t \<Longrightarrow> thread_step t g = (t', g') \<Longrightarrow>
     device g' = Some r \<and> on_course t'"
proof (cases t)
  case (Thread c conn asg ap p)
  assume d: "device g = Some r" and n: "on_course t"
    and s: "thread_step t g = (t', g')"
  show ?thesis
  proof (cases p)
    case Started
    then show ?thesis using s Thread d n
      by (auto simp add: get_device_connected on_course_def)
  next
    case (Connected r')
    then show ?thesis using s Thread d n
      by (cases asg) (auto simp add: on_course_def)
  next
    case (Applying r')
    then show ?thesis using s Thread d n
      by (cases ap) (auto simp add: update_status_bar_def on_course_def)
  qed (use s Thread d n in \<open>auto simp add: on_course_def\<close>)
qed

lemma exec_event_connected:
  "device g = Some r \<Longrightarrow> \<forall>t \<in> set ts. on_course t \<Longrightarrow> event_accepted ev \<Longrightarrow>
   exec_event (ts, g) ev = (ts', g') \<Longrightarrow>
     device g' = Some r \<and> (\<forall>t \<in> set ts'. on_course t) \<and>
     length ts' = length ts + (if is_spawn ev then 1 else 0)"
proof (cases ev)
  case (Spawn c conn asg ap)
  assume "device g = Some r" "\<forall>t \<in> set ts. on_course t" "event_accepted ev"
    "exec_event (ts, g) ev = (ts', g')"
  then show ?thesis using Spawn by (auto simp add: announce_frame on_course_def)
next
  case (Step i)
  assume d: "device g = Some r" and n: "\<forall>t \<in> set ts. on_course t"
    and e: "exec_event (ts, g) ev = (ts', g')"
  show ?thesis
  proof (cases "i < length ts")
    case True
    obtain t where t: "thread_step (ts ! i) g = (t, g')" and ts': "ts' = ts[i := t]"
      using e Step True by (auto split: prod.splits)
    have "on_course (ts ! i)" using n True by simp
    then have "device g' = Some r \<and> on_course t"
      using thread_step_connected [OF d _ t] by simp
    then show ?thesis using n ts' Step
      by (auto dest!: set_update_subset_insert [THEN subsetD])
  next
    case False
    then show ?thesis using e Step d n by simp
  qed
qed

lemma exec_connected:
  "device g = Some r \<Longrightarrow> \<forall>t \<in> set ts. on_course t \<Longrightarrow> \<forall>ev \<in> set evs. event_accepted ev \<Longrightarrow>
   exec evs (ts, g) = (ts', g') \<Longrightarrow>
     device g' = Some r \<and> (\<forall>t \<in> set ts'. on_course t) \<and>
     length ts' = length ts + length (filter is_spawn evs)"
  unfolding exec_def
proof (induction evs arbitrary: ts g)
  case Nil
  then show ?case by simp
next
  case (Cons ev evs)
  obtain ts1 g1 where s: "exec_event (ts, g) ev = (ts1, g1)"
    by (cases "exec_event (ts, g) ev") auto
  have a: "event_accepted ev" "\<forall>ev \<in> set evs. event_accepted ev"
    using Cons.prems(3) by simp_all
  note one = exec_event_connected [OF Cons.prems(1) Cons.prems(2) a(1) s]
  have "foldl exec_event (ts1, g1) evs = (ts', g')"
    using Cons.prems s by simp
  then have "device g' = Some r \<and> (\<forall>t \<in> set ts'. on_course t) \<and>
     length ts' = length ts1 + length (filter is_spawn evs)"
    using one a(2) by (intro Cons.IH) simp_all
  then show ?case using one by simp
qed

lemma ended_called_apply: "ended (thread_pc t) \<Longrightarrow> on_course t \<Longrightarrow> called_apply (thread_pc t)"
  by (cases "thread_pc t") (simp_all add: on_course_def)

text \<open>
  Claim C9 as the specification states it: for one control field at most one push is in
  flight, and of two commands issued in quick succession exactly one value, the latest, is
  pushed, never both out of order. In the source each command starts a thread of its own
  with no lock and no queue. After ON and OFF are pressed, a schedule brings both threads
  inside \<^verbatim>\<open>apply()\<close> at once; run to their ends in the order of issue they push twice, ON
  then OFF; run in the other order they push OFF then ON, so the value pushed last is the
  older command's.
\<close>

theorem no_single_flight_counterexample:
  "pushes_in_flight ''running''
     (fst (exec (two_power_commands @ [Step 0, Step 0, Step 0, Step 1, Step 1, Step 1])
        ([], connected_gui))) = 2 \<and>
   map running (applied (snd (exec
     (two_power_commands @ [Step 0, Step 0, Step 0, Step 0, Step 1, Step 1, Step 1, Step 1])
        ([], connected_gui)))) = [True, False] \<and>
   map running (applied (snd (exec
     (two_power_commands @ [Step 1, Step 1, Step 1, Step 1, Step 0, Step 0, Step 0, Step 0])
        ([], connected_gui)))) = [False, True]"
  by (simp add: exec_def two_power_commands_def pushes_in_flight_def connected_gui_refs
      get_device_connected update_status_bar_def)

text \<open>
  Claim C9, amended: there is no single-flight guarantee. Every command issued starts its
  own thread, and a thread calls \<^verbatim>\<open>apply()\<close> once if it gets a device and its assignment
  is accepted, and not at all otherwise: under every schedule the number of pushes made is
  the number of threads that have reached \<^verbatim>\<open>apply()\<close>. With a connected device and every
  assignment accepted, when all threads have ended that is the number of commands issued.
  Two commands for one field give two pushes, which may be in flight together and in
  either order.
\<close>

theorem pushes_are_threads_reaching_apply:
  assumes "exec evs ([], g) = (ts, g')"
  shows "length (applied g') = length (applied g) + pushes_called ts \<and>
    (device g = Some r \<and> (\<forall>ev \<in> set evs. event_accepted ev) \<and>
     (\<forall>t \<in> set ts. ended (thread_pc t)) \<longrightarrow>
       length (applied g') = length (applied g) + length (filter is_spawn evs))"
proof -
  have p: "length (applied g') = length (applied g) + pushes_called ts"
    using exec_pushes [OF assms] by (simp add: pushes_called_def)
  have "pushes_called ts = length (filter is_spawn evs)"
    if d: "device g = Some r" and a: "\<forall>ev \<in> set evs. event_accepted ev"
      and e: "\<forall>t \<in> set ts. ended (thread_pc t)"
  proof -
    have c: "(\<forall>t \<in> set ts. on_course t) \<and> length ts = length (filter is_spawn evs)"
      using exec_connected [OF d _ a assms] by simp
    have "\<forall>t \<in> set ts. called_apply (thread_pc t)"
      using c e ended_called_apply by blast
    then show ?thesis
      using c by (simp add: pushes_called_def)
  qed
  then show ?thesis using p by simp
qed

theorem pushes_are_threads_reaching_apply_witness:
  "device connected_gui = Some 0 \<and>
   map thread_pc (fst (exec
     (two_power_commands @ [Step 0, Step 0, Step 0, Step 0, Step 1, Step 1, Step 1, Step 1])
        ([], connected_gui))) = [Finished, Finished] \<and>
   length (applied (snd (exec
     (two_power_commands @ [Step 0, Step 0, Step 0, Step 0, Step 1, Step 1, Step 1, Step 1])
        ([], connected_gui)))) = 2 \<and>
   map thread_pc (fst (exec
     [Spawn (SetTemperature 60 ''F'' 15) (Raises []) (Raises ''refused'') (Returns ()),
      Step 0, Step 0, Step 0] ([], connected_gui))) = [Refused] \<and>
   length (applied (snd (exec
     [Spawn (SetTemperature 60 ''F'' 15) (Raises []) (Raises ''refused'') (Returns ()),
      Step 0, Step 0, Step 0] ([], connected_gui)))) = 0"
proof -
  let ?evs = "two_power_commands @ [Step 0, Step 0, Step 0, Step 0, Step 1, Step 1, Step 1, Step 1]"
  let ?ref = "[Spawn (SetTemperature 60 ''F'' 15) (Raises []) (Raises ''refused'') (Returns ()),
      Step 0, Step 0, Step 0]"
  obtain ts g' where x: "exec ?evs ([], connected_gui) = (ts, g')"
    by (cases "exec ?evs ([], connected_gui)")
  obtain ts2 g2 where y: "exec ?ref ([], connected_gui) = (ts2, g2)"
    by (cases "exec ?ref ([], connected_gui)")
  have d: "device connected_gui = Some 0"
    by (simp add: connected_gui_refs)
  have "map thread_pc (fst (exec ?evs ([], connected_gui))) = [Finished, Finished]"
    by (simp add: exec_def two_power_commands_def connected_gui_refs get_device_connected
        update_status_bar_def)
  then have p: "map thread_pc ts = [Finished, Finished]"
    unfolding x by simp
  have e: "\<forall>t \<in> set ts. ended (thread_pc t)"
  proof
    fix t
    assume "t \<in> set ts"
    then have "thread_pc t \<in> set (map thread_pc ts)" by simp
    then have "thread_pc t = Finished" unfolding p by simp
    then show "ended (thread_pc t)" by simp
  qed
  have a: "\<forall>ev \<in> set ?evs. event_accepted ev"
    by (simp add: two_power_commands_def)
  have s: "length (filter is_spawn ?evs) = 2"
    by (simp add: two_power_commands_def)
  have "length (applied g') = length (applied connected_gui) + length (filter is_spawn ?evs)"
    using pushes_are_threads_reaching_apply [OF x, of 0] d a e by blast
  then have n: "length (applied g') = 2"
    unfolding s by (simp add: connected_gui_refs)
  have "map thread_pc (fst (exec ?ref ([], connected_gui))) = [Refused]"
    by (simp add: exec_def connected_gui_refs get_device_connected update_status_bar_def)
  then have q: "map thread_pc ts2 = [Refused]"
    unfolding y by simp
  then have "pushes_called ts2 = 0"
    by (cases ts2) (auto simp add: pushes_called_def)
  then have m: "length (applied g2) = 0"
    using pushes_are_threads_reaching_apply [OF y, of 0] by (simp add: connected_gui_refs)
  show ?thesis
    unfolding x y using d p n q m by simp
qed


end
